theory Spec2Isabelle
  imports Main
begin

section \<open>The IPKCP client: data model\<close>

text \<open>
  The development embeds \<^verbatim>\<open>src/main.cpp\<close>: option parsing, option validation, the
  creation and connection of the client object, the interactive loop and the final status
  check. The process is a function of its environment: the argument vector, the bytes
  that standard input will deliver, the arrivals of SIGINT, and the client object
  (class \<^verbatim>\<open>IPKCPClient\<close> of \<^verbatim>\<open>client.hpp\<close>). Its result is the exit code together with
  the log of everything \<^verbatim>\<open>main\<close> did: the client calls and the writes to the two
  output streams, in program order.
\<close>

definition EXIT_SUCCESS :: int where
  "EXIT_SUCCESS = 0"

definition EXIT_FAILURE :: int where
  "EXIT_FAILURE = 1"

text \<open>
  Modelled from the spec: the enumeration \<^verbatim>\<open>IPKCPCState\<close> is declared in
  \<^verbatim>\<open>client.hpp\<close>; \<^verbatim>\<open>main.cpp\<close> names \<open>UP\<close>, \<open>DOWN\<close> and \<open>ERRORED\<close>, the
  specification adds \<open>INIT\<close>.
\<close>

datatype IPKCPCState = INIT | UP | DOWN | ERRORED

datatype sock_type = SOCK_STREAM | SOCK_DGRAM

text \<open>
  The client object is a parameter of the program. \<open>'c\<close> is the whole state behind the
  object (its fields and the network it talks to); each member function takes that
  state and returns its result with the state after the call. The member functions are
  the seven that \<^verbatim>\<open>main\<close> uses.
\<close>

record 'c client_ops =
  construct :: "int \<Rightarrow> string \<Rightarrow> sock_type \<Rightarrow> 'c"
  get_state :: "'c \<Rightarrow> IPKCPCState"
  error_msg :: "'c \<Rightarrow> string"
  connect :: "'c \<Rightarrow> bool \<times> 'c"
  send :: "'c \<Rightarrow> string \<Rightarrow> int \<times> 'c"
  recv :: "'c \<Rightarrow> string \<times> 'c"
  disconnect :: "'c \<Rightarrow> string \<times> 'c"

text \<open>
  The log. A client call is logged with the session state in which it is made;
  \<open>Getline\<close> logs a line taken from standard input.
\<close>

datatype call = Connect | Send string | Recv | Disconnect

datatype event =
    Construct int string sock_type
  | Call IPKCPCState call
  | Getline string
  | Cout string
  | Cerr string

fun calls_of :: "event list \<Rightarrow> call list" where
  "calls_of [] = []"
| "calls_of (Call q c # es) = c # calls_of es"
| "calls_of (e # es) = calls_of es"

fun stdout_of :: "event list \<Rightarrow> string" where
  "stdout_of [] = []"
| "stdout_of (Cout s # es) = s @ stdout_of es"
| "stdout_of (e # es) = stdout_of es"

fun stderr_of :: "event list \<Rightarrow> string" where
  "stderr_of [] = []"
| "stderr_of (Cerr s # es) = s @ stderr_of es"
| "stderr_of (e # es) = stderr_of es"

fun is_send :: "call \<Rightarrow> bool" where
  "is_send (Send s) = True"
| "is_send c = False"

section \<open>The C library: \<^verbatim>\<open>atoi\<close> and \<^verbatim>\<open>getopt\<close>\<close>

text \<open>
  \<^verbatim>\<open>atoi\<close> skips white space, reads an optional sign and then the longest run of
  decimal digits; with no digit the value is 0. ISO C leaves a value outside
  \<^verbatim>\<open>int\<close> undefined; the model follows glibc on LP64, where \<^verbatim>\<open>atoi(s)\<close> is
  \<^verbatim>\<open>(int) strtol(s, NULL, 10)\<close>: saturation to the 64-bit \<^verbatim>\<open>long\<close>, then truncation to
  32 bits.
\<close>

definition isspace :: "char \<Rightarrow> bool" where
  "isspace c = (c = CHR '' '' \<or> (9 \<le> (of_char c :: nat) \<and> (of_char c :: nat) \<le> 13))"

definition isdigit :: "char \<Rightarrow> bool" where
  "isdigit c = (48 \<le> (of_char c :: nat) \<and> (of_char c :: nat) \<le> 57)"

definition digit_val :: "char \<Rightarrow> int" where
  "digit_val c = int (of_char c) - 48"

fun digits_value :: "int \<Rightarrow> string \<Rightarrow> int" where
  "digits_value acc [] = acc"
| "digits_value acc (c # cs) =
     (if isdigit c then digits_value (10 * acc + digit_val c) cs else acc)"

definition LONG_MAX :: int where
  "LONG_MAX = 2 ^ 63 - 1"

definition LONG_MIN :: int where
  "LONG_MIN = - (2 ^ 63)"

definition INT_MAX :: int where
  "INT_MAX = 2 ^ 31 - 1"

definition INT_MIN :: int where
  "INT_MIN = - (2 ^ 31)"

definition saturate_long :: "int \<Rightarrow> int" where
  "saturate_long v = (if v < LONG_MIN then LONG_MIN else if LONG_MAX < v then LONG_MAX else v)"

definition int_cast :: "int \<Rightarrow> int" where
  "int_cast v = (v + 2 ^ 31) mod 2 ^ 32 - 2 ^ 31"

definition strtol10 :: "string \<Rightarrow> int" where
  "strtol10 s =
     (case dropWhile isspace s of
        [] \<Rightarrow> 0
      | c # cs \<Rightarrow>
          if c = CHR ''-'' then saturate_long (- digits_value 0 cs)
          else if c = CHR ''+'' then saturate_long (digits_value 0 cs)
          else saturate_long (digits_value 0 (c # cs)))"

definition atoi :: "string \<Rightarrow> int" where
  "atoi s = int_cast (strtol10 s)"

text \<open>
  \<^verbatim>\<open>getopt(argc, argv, "h:p:m:")\<close>, as glibc scans by default: an element that does not
  start with \<open>-\<close>, or is \<open>-\<close> alone, is not an option and is passed over; \<open>--\<close> ends the
  scan; any other element is a cluster of option characters. Each of \<open>h\<close>, \<open>p\<close>, \<open>m\<close>
  takes an argument: the rest of the cluster when there is one, the next element
  otherwise; with neither, and for any other character, \<^verbatim>\<open>getopt\<close> returns \<open>?\<close>.
  \<open>getopt_all\<close> lists the values that the successive calls return before \<open>-1\<close>.
\<close>

datatype getopt_ret = Opt char string | Unrecognized

definition takes_arg :: "char \<Rightarrow> bool" where
  "takes_arg c = (c = CHR ''h'' \<or> c = CHR ''p'' \<or> c = CHR ''m'')"

fun getopt_cluster :: "string \<Rightarrow> string list \<Rightarrow> getopt_ret list \<times> string list" where
  "getopt_cluster [] rest = ([], rest)"
| "getopt_cluster (c # cs) rest =
     (if takes_arg c then
        (if cs \<noteq> [] then ([Opt c cs], rest)
         else (case rest of
                 [] \<Rightarrow> ([Unrecognized], [])
               | a # rest' \<Rightarrow> ([Opt c a], rest')))
      else (case getopt_cluster cs rest of (rs, rest') \<Rightarrow> (Unrecognized # rs, rest')))"

definition is_option :: "string \<Rightarrow> bool" where
  "is_option a = (case a of c # _ # _ \<Rightarrow> c = CHR ''-'' | _ \<Rightarrow> False)"

lemma getopt_cluster_length: "length (snd (getopt_cluster cs rest)) \<le> length rest"
  by (induction cs) (auto split: list.splits prod.splits)

function getopt_all :: "string list \<Rightarrow> getopt_ret list" where
  "getopt_all [] = []"
| "getopt_all (a # rest) =
     (if a = ''--'' then []
      else if is_option a then
        (case getopt_cluster (tl a) rest of (rs, rest') \<Rightarrow> rs @ getopt_all rest')
      else getopt_all rest)"
  by pat_completeness auto
termination
proof (relation "measure length")
  fix a :: string and rest rest' :: "string list" and rs :: "getopt_ret list"
  assume "(rs, rest') = getopt_cluster (tl a) rest"
  then have "rest' = snd (getopt_cluster (tl a) rest)"
    by (metis snd_conv)
  then show "(rest', a # rest) \<in> measure length"
    using getopt_cluster_length [of "tl a" rest] by simp
qed simp_all

section \<open>The program\<close>

subsection \<open>Options\<close>

record options =
  port :: int
  hostname :: string
  protocol :: string

definition endl :: string where
  "endl = [CHR 0x0A]"

definition usage :: string where
  "usage = ''  Usage: ./ipkcpc -h <host> -p <port> -m <mode>'' @ endl"

text \<open>
  The option loop. \<open>None\<close> is the \<^verbatim>\<open>default\<close> branch of the switch, which prints the
  usage line and returns \<open>EXIT_FAILURE\<close>.
\<close>

fun parse_options :: "getopt_ret list \<Rightarrow> options \<Rightarrow> options option" where
  "parse_options [] opts = Some opts"
| "parse_options (Opt c optarg # rs) opts =
     (if c = CHR ''h'' then parse_options rs (opts\<lparr>hostname := optarg\<rparr>)
      else if c = CHR ''p'' then parse_options rs (opts\<lparr>port := atoi optarg\<rparr>)
      else if c = CHR ''m'' then parse_options rs (opts\<lparr>protocol := optarg\<rparr>)
      else None)"
| "parse_options (Unrecognized # rs) opts = None"

subsection \<open>The interactive loop\<close>

text \<open>
  The state of the loop: the client object, the bytes that standard input has not
  delivered yet, the stream's \<open>eofbit\<close>, the global flag \<open>quit\<close>, the arrivals of SIGINT
  still to come, and the log. \<open>sigs\<close> has one entry for each evaluation of
  \<^verbatim>\<open>quit.load()\<close>: whether a SIGINT has been delivered since the previous one (for the
  first entry, since the handler was installed). The flag is written by the handler and
  at line 127 only and read at line 134 only, so the moment of a delivery between two
  reads makes no difference to \<^verbatim>\<open>main\<close>. A delivery that interrupts the read itself
  cuts the line short; the check that follows discards the line whatever it holds, so the
  model lets the read finish.

  Standard input is a finite sequence of bytes followed by end-of-file, and every call of
  a member function of the client returns. On these terms the loop terminates (the
  termination proof of \<open>loop\<close> below): a pass that does not leave the loop has consumed
  input or has set \<open>eofbit\<close>, and a pass that starts with \<open>eofbit\<close> set leaves the loop.
\<close>

record 'c loop_state =
  client :: 'c
  cin :: string
  eofbit :: bool
  quit :: bool
  sigs :: "bool list"
  trace :: "event list"

definition signal_handler :: "'c loop_state \<Rightarrow> 'c loop_state" where
  "signal_handler st = st\<lparr>quit := True\<rparr>"

definition deliver_signals :: "'c loop_state \<Rightarrow> 'c loop_state" where
  "deliver_signals st =
     (case sigs st of
        [] \<Rightarrow> st
      | b # bs \<Rightarrow> if b then signal_handler (st\<lparr>sigs := bs\<rparr>) else st\<lparr>sigs := bs\<rparr>)"

text \<open>
  \<^verbatim>\<open>std::getline\<close> takes the characters up to the next newline and drops the newline;
  when the input ends first it takes what is left and sets \<open>eofbit\<close>.
\<close>

definition getline :: "'c loop_state \<Rightarrow> string \<times> 'c loop_state" where
  "getline st =
     (let line = takeWhile (\<lambda>c. c \<noteq> CHR 0x0A) (cin st) in
      case dropWhile (\<lambda>c. c \<noteq> CHR 0x0A) (cin st) of
        [] \<Rightarrow> (line, st\<lparr>cin := [], eofbit := True, trace := trace st @ [Getline line]\<rparr>)
      | nl # rest \<Rightarrow> (line, st\<lparr>cin := rest, trace := trace st @ [Getline line]\<rparr>))"

text \<open>Lines 123 to 131: the declaration of \<open>input\<close>, the end-of-file test and the read.\<close>

definition read_input :: "'c loop_state \<Rightarrow> string \<times> 'c loop_state" where
  "read_input st = (if eofbit st then ([], st\<lparr>quit := True\<rparr>) else getline st)"

datatype flow = Continue | Break

text \<open>Lines 123 to 157: one pass through the body of the loop.\<close>

definition iteration :: "'c client_ops \<Rightarrow> 'c loop_state \<Rightarrow> flow \<times> 'c loop_state" where
  "iteration ops st =
     (case read_input st of (input, st1) \<Rightarrow>
      let st2 = deliver_signals st1 in
      if quit st2 then
        (case disconnect ops (client st2) of (msg, c') \<Rightarrow>
           (Break, st2\<lparr>client := c',
              trace := trace st2 @ [Call (get_state ops (client st2)) Disconnect, Cout msg]\<rparr>))
      else if input = [] then (Continue, st2)
      else
        (case send ops (client st2) input of (n, c') \<Rightarrow>
         let st3 = st2\<lparr>client := c',
                trace := trace st2 @ [Call (get_state ops (client st2)) (Send input)]\<rparr> in
         if n < 0 then (Break, st3)
         else
           (case recv ops c' of (response, c'') \<Rightarrow>
            let st4 = st3\<lparr>client := c'',
                   trace := trace st3 @ [Call (get_state ops c') Recv]\<rparr> in
            if response = [] then (Break, st4)
            else (Continue, st4\<lparr>trace := trace st4 @ [Cout response]\<rparr>))))"

definition loop_measure :: "'c loop_state \<Rightarrow> nat" where
  "loop_measure st = (if eofbit st then 0 else Suc (length (cin st)))"

lemma getline_measure:
  "\<not> eofbit st \<Longrightarrow> loop_measure (snd (getline st)) < loop_measure st"
proof -
  assume "\<not> eofbit st"
  have "length (dropWhile (\<lambda>c. c \<noteq> CHR 0x0A) (cin st)) \<le> length (cin st)"
    by (rule length_dropWhile_le)
  then show ?thesis
    using \<open>\<not> eofbit st\<close>
    by (auto simp: getline_def loop_measure_def Let_def split: list.splits)
qed

lemma deliver_signals_fields [simp]:
  "cin (deliver_signals st) = cin st"
  "eofbit (deliver_signals st) = eofbit st"
  "client (deliver_signals st) = client st"
  "trace (deliver_signals st) = trace st"
  by (auto simp: deliver_signals_def signal_handler_def split: list.splits)

lemma deliver_signals_quit:
  "quit (deliver_signals st) = (quit st \<or> (case sigs st of [] \<Rightarrow> False | b # bs \<Rightarrow> b))"
  by (auto simp: deliver_signals_def signal_handler_def split: list.splits)

lemma deliver_signals_measure: "loop_measure (deliver_signals st) = loop_measure st"
  by (simp add: loop_measure_def)

lemma iteration_measure:
  assumes "iteration ops st = (Continue, st')"
  shows "loop_measure st' < loop_measure st"
proof (cases "eofbit st")
  case True
  then have "quit (deliver_signals (snd (read_input st)))"
    by (simp add: read_input_def deliver_signals_quit)
  with assms show ?thesis
    by (auto simp: iteration_def Let_def split: prod.splits if_splits)
next
  case False
  then have r: "read_input st = getline st"
    by (simp add: read_input_def)
  have m: "loop_measure (deliver_signals (snd (getline st))) < loop_measure st"
    using getline_measure [OF False] by (simp add: deliver_signals_measure)
  from assms r have "st' = deliver_signals (snd (getline st)) \<or>
      loop_measure st' = loop_measure (deliver_signals (snd (getline st)))"
    by (auto simp: iteration_def Let_def loop_measure_def split: prod.splits if_splits)
  with m show ?thesis
    by auto
qed

text \<open>Line 122: the loop, entered again as long as the session is \<open>UP\<close>.\<close>

function loop :: "'c client_ops \<Rightarrow> 'c loop_state \<Rightarrow> 'c loop_state" where
  "loop ops st =
     (if get_state ops (client st) = UP then
        (case iteration ops st of
           (Continue, st') \<Rightarrow> loop ops st'
         | (Break, st') \<Rightarrow> st')
      else st)"
  by pat_completeness auto
termination
proof (relation "measure (\<lambda>(ops, st). loop_measure st)")
  fix ops :: "'c client_ops" and st st' :: "'c loop_state" and fl :: flow
  assume "(fl, st') = iteration ops st" and "fl = Continue"
  then have "iteration ops st = (Continue, st')"
    by simp
  then show "((ops, st'), (ops, st)) \<in> measure (\<lambda>(ops, st). loop_measure st)"
    using iteration_measure by fastforce
qed simp

declare loop.simps [simp del]

subsection \<open>\<^verbatim>\<open>main\<close>\<close>

record 'c outcome =
  exit_code :: int
  events :: "event list"
  session :: "'c option"

text \<open>Lines 160 to 166: the status check after the loop.\<close>

definition finish :: "'c client_ops \<Rightarrow> 'c loop_state \<Rightarrow> 'c outcome" where
  "finish ops st =
     (if get_state ops (client st) \<noteq> DOWN then
        \<lparr>exit_code = EXIT_FAILURE,
         events = trace st @ [Cerr (''!ERR! '' @ error_msg ops (client st) @ endl)],
         session = Some (client st)\<rparr>
      else \<lparr>exit_code = EXIT_SUCCESS, events = trace st, session = Some (client st)\<rparr>)"

text \<open>An exit before the client object exists.\<close>

definition usage_exit :: "string \<Rightarrow> 'c outcome" where
  "usage_exit msg = \<lparr>exit_code = EXIT_FAILURE, events = [Cerr (msg @ usage)], session = None\<rparr>"

text \<open>Lines 107 to 166: from the creation of the client to the end.\<close>

definition run_client ::
  "'c client_ops \<Rightarrow> options \<Rightarrow> string \<Rightarrow> bool list \<Rightarrow> 'c outcome" where
  "run_client ops opts stdin signals =
     (let c = construct ops (port opts) (hostname opts)
                (if protocol opts = ''tcp'' then SOCK_STREAM else SOCK_DGRAM);
          tr = [Construct (port opts) (hostname opts)
                  (if protocol opts = ''tcp'' then SOCK_STREAM else SOCK_DGRAM)] in
      if get_state ops c = ERRORED then
        \<lparr>exit_code = EXIT_FAILURE,
         events = tr @ [Cerr (''!ERR! '' @ error_msg ops c @ endl)],
         session = Some c\<rparr>
      else
        (case connect ops c of (ok, c1) \<Rightarrow>
         let tr1 = tr @ [Call (get_state ops c) Connect] in
         if \<not> ok \<or> get_state ops c1 = ERRORED then
           \<lparr>exit_code = EXIT_FAILURE,
            events = tr1 @ [Cerr (''!ERR! '' @ error_msg ops c1 @ endl)],
            session = Some c1\<rparr>
         else
           finish ops (loop ops \<lparr>client = c1, cin = stdin, eofbit = False, quit = False,
                                 sigs = signals, trace = tr1\<rparr>)))"

text \<open>
  Lines 59 to 105, then the rest. \<open>argv\<close> includes the program name; \<^verbatim>\<open>getopt\<close> starts
  at \<open>argv[1]\<close>. The log holds what \<^verbatim>\<open>main\<close> itself writes: the diagnostic that
  \<^verbatim>\<open>getopt\<close> prints before it returns \<open>?\<close> is not part of it.
\<close>

definition main :: "'c client_ops \<Rightarrow> string list \<Rightarrow> string \<Rightarrow> bool list \<Rightarrow> 'c outcome" where
  "main ops argv stdin signals =
     (case parse_options (getopt_all (tl argv)) \<lparr>port = 0, hostname = [], protocol = []\<rparr> of
        None \<Rightarrow> usage_exit []
      | Some opts \<Rightarrow>
          if hostname opts = [] then usage_exit (''!ERR! Host not specified!'' @ endl)
          else if port opts = 0 then usage_exit (''!ERR! Port not specified!'' @ endl)
          else if protocol opts = [] then usage_exit (''!ERR! Mode not specified!'' @ endl)
          else if protocol opts \<noteq> ''tcp'' \<and> protocol opts \<noteq> ''udp'' then
            usage_exit (''!ERR! Invalid mode, expected tcp or udp!'' @ endl)
          else run_client ops opts stdin signals)"

section \<open>A session driven by a script of transport outcomes\<close>

text \<open>
  Modelled from the spec: class \<^verbatim>\<open>IPKCPClient\<close> (\<^verbatim>\<open>client.hpp\<close> and its implementation)
  is not among the sources. The specification describes it as a Session over a
  Transport Endpoint: \<open>connect()\<close> leads from \<open>INIT\<close> to \<open>UP\<close>, or to \<open>ERRORED\<close> with the
  message recorded; \<open>send(text)\<close> returns the bytes sent, or a negative result after a
  transition to \<open>ERRORED\<close>; \<open>receive()\<close> returns the payload, and an empty payload leaves
  the state \<open>UP\<close>; \<open>disconnect()\<close> leads from \<open>UP\<close> to \<open>DOWN\<close> and returns a status string;
  \<open>send\<close> and \<open>receive\<close> outside \<open>UP\<close> fail and do nothing. The network is a script: the
  outcome of each transport call, in order; when the script is used up the transport
  fails. That the constructor can leave the object \<open>ERRORED\<close> is what line 110 of
  \<^verbatim>\<open>main.cpp\<close> tests for; the script says whether it does.
\<close>

datatype transport_result = Delivered string | Failed string

record scripted_session =
  sess_state :: IPKCPCState
  sess_error :: string
  sess_kind :: sock_type
  sess_net :: "transport_result list"
  sess_bye :: string

record world =
  ctor_failure :: "string option"
  script :: "transport_result list"
  bye :: string

definition session_create ::
  "world \<Rightarrow> int \<Rightarrow> string \<Rightarrow> sock_type \<Rightarrow> scripted_session" where
  "session_create w p h k =
     (case ctor_failure w of
        None \<Rightarrow> \<lparr>sess_state = INIT, sess_error = [], sess_kind = k,
                  sess_net = script w, sess_bye = bye w\<rparr>
      | Some m \<Rightarrow> \<lparr>sess_state = ERRORED, sess_error = m, sess_kind = k,
                    sess_net = script w, sess_bye = bye w\<rparr>)"

definition transport :: "scripted_session \<Rightarrow> transport_result \<times> scripted_session" where
  "transport s =
     (case sess_net s of
        [] \<Rightarrow> (Failed ''connection closed'', s)
      | r # rs \<Rightarrow> (r, s\<lparr>sess_net := rs\<rparr>))"

definition session_connect :: "scripted_session \<Rightarrow> bool \<times> scripted_session" where
  "session_connect s =
     (if sess_state s \<noteq> INIT then (False, s)
      else (case transport s of
              (Delivered x, s') \<Rightarrow> (True, s'\<lparr>sess_state := UP\<rparr>)
            | (Failed m, s') \<Rightarrow> (False, s'\<lparr>sess_state := ERRORED, sess_error := m\<rparr>)))"

definition session_send :: "scripted_session \<Rightarrow> string \<Rightarrow> int \<times> scripted_session" where
  "session_send s text =
     (if sess_state s \<noteq> UP then (- 1, s)
      else (case transport s of
              (Delivered x, s') \<Rightarrow> (int (length text), s')
            | (Failed m, s') \<Rightarrow> (- 1, s'\<lparr>sess_state := ERRORED, sess_error := m\<rparr>)))"

definition session_receive :: "scripted_session \<Rightarrow> string \<times> scripted_session" where
  "session_receive s =
     (if sess_state s \<noteq> UP then ([], s)
      else (case transport s of
              (Delivered payload, s') \<Rightarrow> (payload, s')
            | (Failed m, s') \<Rightarrow> ([], s'\<lparr>sess_state := ERRORED, sess_error := m\<rparr>)))"

definition session_disconnect :: "scripted_session \<Rightarrow> string \<times> scripted_session" where
  "session_disconnect s =
     (if sess_state s = UP then (sess_bye s, s\<lparr>sess_state := DOWN\<rparr>) else ([], s))"

definition session_ops :: "world \<Rightarrow> scripted_session client_ops" where
  "session_ops w =
     \<lparr>construct = session_create w, get_state = sess_state, error_msg = sess_error,
      connect = session_connect, send = session_send, recv = session_receive,
      disconnect = session_disconnect\<rparr>"

section \<open>Notions used in the statements\<close>

text \<open>
  Cancellation. \<open>sigint_delivered\<close> says that a SIGINT arrives before the next evaluation
  of \<^verbatim>\<open>quit.load()\<close>; \<open>cancelled\<close> says that the evaluation at line 134 of the iteration
  that starts in the given state returns true: \<open>eofbit\<close> is set already (line 125 then
  sets the flag), or the flag is set already, or the signal arrives in time (lemma
  \<open>quit_load\<close> below). \<open>reads\<close> is what the iteration logs for its read, and
  \<open>iteration_events\<close> is everything that one iteration adds to the log.
\<close>

definition sigint_delivered :: "'c loop_state \<Rightarrow> bool" where
  "sigint_delivered st = (case sigs st of [] \<Rightarrow> False | b # bs \<Rightarrow> b)"

definition cancelled :: "'c loop_state \<Rightarrow> bool" where
  "cancelled st = (eofbit st \<or> quit st \<or> sigint_delivered st)"

definition reads :: "'c loop_state \<Rightarrow> event list" where
  "reads st = (if eofbit st then [] else [Getline (fst (getline st))])"

definition iteration_events :: "'c client_ops \<Rightarrow> 'c loop_state \<Rightarrow> event list" where
  "iteration_events ops st = drop (length (trace st)) (trace (snd (iteration ops st)))"

text \<open>
  Modelled from the spec: the part of the contract of the Session (whose code is not
  among the sources) that \<^verbatim>\<open>main\<close> relies on. A \<open>send\<close> in state \<open>UP\<close> either fails,
  returns a negative result and leaves the session \<open>ERRORED\<close>, or succeeds and leaves it
  \<open>UP\<close>; \<open>disconnect\<close> leads from \<open>UP\<close> to \<open>DOWN\<close>; a \<open>connect\<close> of a newly created
  client that reports failure leaves it \<open>ERRORED\<close>.
\<close>

definition send_contract :: "'c client_ops \<Rightarrow> bool" where
  "send_contract ops =
     (\<forall>c s. get_state ops c = UP \<longrightarrow>
        (if fst (send ops c s) < 0 then get_state ops (snd (send ops c s)) = ERRORED
         else get_state ops (snd (send ops c s)) = UP))"

definition disconnect_contract :: "'c client_ops \<Rightarrow> bool" where
  "disconnect_contract ops =
     (\<forall>c. get_state ops c = UP \<longrightarrow> get_state ops (snd (disconnect ops c)) = DOWN)"

definition fresh_connect_contract :: "'c client_ops \<Rightarrow> bool" where
  "fresh_connect_contract ops =
     (\<forall>p h k. get_state ops (construct ops p h k) \<noteq> ERRORED \<longrightarrow>
        \<not> fst (connect ops (construct ops p h k)) \<longrightarrow>
        get_state ops (snd (connect ops (construct ops p h k))) = ERRORED)"

text \<open>
  \<open>io_only_up\<close> holds of a log entry unless it is a \<open>send\<close> or \<open>recv\<close> made in a state
  other than \<open>UP\<close>.
\<close>

fun io_only_up :: "event \<Rightarrow> bool" where
  "io_only_up (Call q (Send s)) = (q = UP)"
| "io_only_up (Call q Recv) = (q = UP)"
| "io_only_up e = True"

text \<open>
  The options of an argument vector, read off the values that \<^verbatim>\<open>getopt\<close> returns:
  \<open>last_arg c\<close> is the argument of the last option \<open>c\<close>, the one that the option loop
  keeps, and \<open>None\<close> when the option is missing; \<open>known\<close> holds of every return value
  but \<open>?\<close>. \<open>sock_of\<close> is the conditional expression of line 109.
\<close>

fun last_arg :: "char \<Rightarrow> getopt_ret list \<Rightarrow> string option" where
  "last_arg c [] = None"
| "last_arg c (Opt d a # rs) =
     (case last_arg c rs of Some b \<Rightarrow> Some b | None \<Rightarrow> if c = d then Some a else None)"
| "last_arg c (Unrecognized # rs) = last_arg c rs"

fun known :: "getopt_ret \<Rightarrow> bool" where
  "known (Opt c a) = takes_arg c"
| "known Unrecognized = False"

definition sock_of :: "string \<Rightarrow> sock_type" where
  "sock_of mode = (if mode = ''tcp'' then SOCK_STREAM else SOCK_DGRAM)"

text \<open>
  Port arguments. \<open>has_number\<close> says that the string starts, after white space and an
  optional sign, with a decimal digit; \<open>decimal\<close> writes an integer in decimal notation.
\<close>

definition has_number :: "string \<Rightarrow> bool" where
  "has_number s =
     (case dropWhile isspace s of
        [] \<Rightarrow> False
      | c # cs \<Rightarrow>
          if c = CHR ''-'' \<or> c = CHR ''+'' then (case cs of [] \<Rightarrow> False | d # ds \<Rightarrow> isdigit d)
          else isdigit c)"

definition digit_char :: "nat \<Rightarrow> char" where
  "digit_char d = ''0123456789'' ! d"

function dec_nat :: "nat \<Rightarrow> string" where
  "dec_nat n = (if n < 10 then [digit_char n] else dec_nat (n div 10) @ [digit_char (n mod 10)])"
  by pat_completeness auto
termination
  by (relation "measure id") auto

declare dec_nat.simps [simp del]

definition decimal :: "int \<Rightarrow> string" where
  "decimal n = (if n < 0 then CHR ''-'' # dec_nat (nat (- n)) else dec_nat (nat n))"

text \<open>
  Concrete runs: an argument vector, four networks for the scripted session (a server
  that answers \<open>HELLO\<close>, one that closes the connection after the request, one on which
  the request cannot be sent, and a client whose constructor fails), and the state of the
  loop when it is entered after a successful \<open>connect\<close>.
\<close>

definition example_argv :: "string list" where
  "example_argv = [''./ipkcpc'', ''-h'', ''localhost'', ''-p'', ''2023'', ''-m'', ''tcp'']"

definition echo_server :: world where
  "echo_server = \<lparr>ctor_failure = None,
     script = [Delivered [], Delivered [], Delivered ''HELLO''], bye = ''BYE''\<rparr>"

definition closing_server :: world where
  "closing_server = \<lparr>ctor_failure = None,
     script = [Delivered [], Delivered [], Delivered []], bye = ''BYE''\<rparr>"

definition failing_server :: world where
  "failing_server = \<lparr>ctor_failure = None,
     script = [Delivered [], Failed ''send failed''], bye = ''BYE''\<rparr>"

definition no_socket :: world where
  "no_socket = \<lparr>ctor_failure = Some ''socket creation failed'', script = [], bye = ''BYE''\<rparr>"

definition connected :: "world \<Rightarrow> scripted_session" where
  "connected w = snd (session_connect (session_create w 2023 ''localhost'' SOCK_STREAM))"

definition at_prompt ::
  "world \<Rightarrow> string \<Rightarrow> bool list \<Rightarrow> scripted_session loop_state" where
  "at_prompt w stdin signals =
     \<lparr>client = connected w, cin = stdin, eofbit = False, quit = False, sigs = signals,
      trace = [Construct 2023 ''localhost'' SOCK_STREAM, Call INIT Connect]\<rparr>"

section \<open>Properties of the loop and of \<^verbatim>\<open>main\<close>\<close>

lemma calls_of_append [simp]: "calls_of (xs @ ys) = calls_of xs @ calls_of ys"
  by (induction xs rule: calls_of.induct) simp_all

lemma stdout_of_append [simp]: "stdout_of (xs @ ys) = stdout_of xs @ stdout_of ys"
  by (induction xs rule: stdout_of.induct) simp_all

lemma stderr_of_append [simp]: "stderr_of (xs @ ys) = stderr_of xs @ stderr_of ys"
  by (induction xs rule: stderr_of.induct) simp_all

lemma getline_fields [simp]:
  "quit (snd (getline st)) = quit st"
  "sigs (snd (getline st)) = sigs st"
  "client (snd (getline st)) = client st"
  "trace (snd (getline st)) = trace st @ [Getline (fst (getline st))]"
  by (auto simp: getline_def Let_def split: list.splits)

lemma read_input_fields [simp]:
  "sigs (snd (read_input st)) = sigs st"
  "client (snd (read_input st)) = client st"
  "trace (snd (read_input st)) = trace st @ reads st"
  "quit (snd (read_input st)) = (eofbit st \<or> quit st)"
  by (auto simp: read_input_def reads_def)

lemma quit_load: "quit (deliver_signals (snd (read_input st))) = cancelled st"
  by (auto simp: deliver_signals_quit cancelled_def sigint_delivered_def)

lemma reads_not_cancelled: "\<not> cancelled st \<Longrightarrow> reads st = [Getline (fst (read_input st))]"
  by (simp add: cancelled_def reads_def read_input_def)

lemma calls_of_reads [simp]: "calls_of (reads st) = []"
  by (simp add: reads_def)

lemma stdout_of_reads [simp]: "stdout_of (reads st) = []"
  by (simp add: reads_def)

lemma iteration_unfold:
  "iteration ops st =
     (let input = fst (read_input st);
          st2 = deliver_signals (snd (read_input st));
          c = client st;
          tr = trace st @ reads st;
          c' = snd (send ops c input);
          response = fst (recv ops c') in
      if cancelled st then
        (Break, st2\<lparr>client := snd (disconnect ops c),
           trace := tr @ [Call (get_state ops c) Disconnect, Cout (fst (disconnect ops c))]\<rparr>)
      else if input = [] then (Continue, st2)
      else if fst (send ops c input) < 0 then
        (Break, st2\<lparr>client := c', trace := tr @ [Call (get_state ops c) (Send input)]\<rparr>)
      else if response = [] then
        (Break, st2\<lparr>client := snd (recv ops c'),
           trace := tr @ [Call (get_state ops c) (Send input), Call (get_state ops c') Recv]\<rparr>)
      else
        (Continue, st2\<lparr>client := snd (recv ops c'),
           trace := tr @ [Call (get_state ops c) (Send input), Call (get_state ops c') Recv,
                          Cout response]\<rparr>))"
  unfolding iteration_def
  by (simp add: split_beta Let_def quit_load)

lemma iteration_cancelled:
  assumes "cancelled st"
  shows "iteration ops st =
    (Break, (deliver_signals (snd (read_input st)))
       \<lparr>client := snd (disconnect ops (client st)),
        trace := trace st @ reads st @
          [Call (get_state ops (client st)) Disconnect, Cout (fst (disconnect ops (client st)))]\<rparr>)"
  using assms by (simp add: iteration_unfold Let_def)

lemma iteration_empty_line:
  assumes "\<not> cancelled st" and "fst (read_input st) = []"
  shows "iteration ops st = (Continue, deliver_signals (snd (read_input st)))"
  using assms by (simp add: iteration_unfold Let_def)

lemma iteration_send_failed:
  assumes "\<not> cancelled st" and "fst (read_input st) \<noteq> []"
    and "fst (send ops (client st) (fst (read_input st))) < 0"
  shows "iteration ops st =
    (Break, (deliver_signals (snd (read_input st)))
       \<lparr>client := snd (send ops (client st) (fst (read_input st))),
        trace := trace st @ reads st @
          [Call (get_state ops (client st)) (Send (fst (read_input st)))]\<rparr>)"
  using assms by (simp add: iteration_unfold Let_def)

lemma iteration_received:
  assumes "\<not> cancelled st" and "fst (read_input st) \<noteq> []"
    and "send ops (client st) (fst (read_input st)) = (n, c')" and "0 \<le> n"
    and "recv ops c' = (response, c'')"
  shows "iteration ops st =
    (if response = [] then Break else Continue,
     (deliver_signals (snd (read_input st)))
       \<lparr>client := c'',
        trace := trace st @ reads st @
          [Call (get_state ops (client st)) (Send (fst (read_input st))),
           Call (get_state ops c') Recv] @ (if response = [] then [] else [Cout response])\<rparr>)"
  using assms by (simp add: iteration_unfold Let_def)

lemma trace_iteration:
  "trace (snd (iteration ops st)) = trace st @ iteration_events ops st"
  by (simp add: iteration_events_def iteration_unfold Let_def)

lemma iteration_events_unfold:
  "iteration_events ops st = reads st @
     (let input = fst (read_input st);
          c = client st;
          c' = snd (send ops c input);
          response = fst (recv ops c') in
      if cancelled st then [Call (get_state ops c) Disconnect, Cout (fst (disconnect ops c))]
      else if input = [] then []
      else if fst (send ops c input) < 0 then [Call (get_state ops c) (Send input)]
      else if response = [] then
        [Call (get_state ops c) (Send input), Call (get_state ops c') Recv]
      else [Call (get_state ops c) (Send input), Call (get_state ops c') Recv, Cout response])"
  by (simp add: iteration_events_def iteration_unfold Let_def)

lemma iteration_exhausted:
  assumes "\<not> cancelled st" and "cin st = []"
  shows "iteration ops st = (Continue, deliver_signals (snd (read_input st)))"
    and "eofbit (deliver_signals (snd (read_input st)))"
    and "reads (deliver_signals (snd (read_input st))) = []"
proof -
  have e: "\<not> eofbit st"
    using assms(1) by (simp add: cancelled_def)
  then have r: "read_input st = ([], st\<lparr>cin := [], eofbit := True, trace := trace st @ [Getline []]\<rparr>)"
    using assms(2) by (simp add: read_input_def getline_def)
  show "iteration ops st = (Continue, deliver_signals (snd (read_input st)))"
    using assms(1) r by (simp add: iteration_empty_line)
  show b: "eofbit (deliver_signals (snd (read_input st)))"
    by (simp add: r)
  then show "reads (deliver_signals (snd (read_input st))) = []"
    by (simp add: reads_def)
qed

lemma loop_break:
  assumes "get_state ops (client st) = UP" and "iteration ops st = (Break, st')"
  shows "loop ops st = st'"
  using assms by (simp add: loop.simps [of ops st])

lemma loop_continue:
  assumes "get_state ops (client st) = UP" and "iteration ops st = (Continue, st')"
  shows "loop ops st = loop ops st'"
  using assms by (simp add: loop.simps [of ops st])

lemma loop_not_up:
  assumes "get_state ops (client st) \<noteq> UP"
  shows "loop ops st = st"
  using assms by (simp add: loop.simps [of ops st])

lemma loop_cancelled:
  assumes "get_state ops (client st) = UP" and "cancelled st"
  shows "loop ops st = (deliver_signals (snd (read_input st)))
       \<lparr>client := snd (disconnect ops (client st)),
        trace := trace st @ reads st @
          [Call UP Disconnect, Cout (fst (disconnect ops (client st)))]\<rparr>"
  using loop_break [OF assms(1) iteration_cancelled [OF assms(2)]] assms(1) by simp

lemma loop_stops_on_cancellation:
  assumes "get_state ops (client st) = UP" and "cancelled st \<or> cin st = []"
  shows "trace (loop ops st) = trace st @ reads st @
           [Call UP Disconnect, Cout (fst (disconnect ops (client st)))]
       \<and> client (loop ops st) = snd (disconnect ops (client st))"
proof (cases "cancelled st")
  case True
  show ?thesis
    by (simp add: loop_cancelled [OF assms(1) True])
next
  case False
  then have x: "cin st = []"
    using assms(2) by simp
  define st2 where "st2 = deliver_signals (snd (read_input st))"
  have e: "iteration ops st = (Continue, st2)" "eofbit st2" "reads st2 = []"
    using iteration_exhausted [OF False x] by (simp_all add: st2_def)
  have c2: "cancelled st2"
    using e(2) by (simp add: cancelled_def)
  have u2: "get_state ops (client st2) = UP"
    using assms(1) by (simp add: st2_def)
  have "loop ops st = loop ops st2"
    using loop_continue [OF assms(1) e(1)] .
  then show ?thesis
    using loop_cancelled [OF u2 c2] e(3) by (simp add: st2_def)
qed

lemma loop_extends_trace: "\<exists>evs. trace (loop ops st) = trace st @ evs"
proof (induction ops st rule: loop.induct)
  case (1 ops st)
  show ?case
  proof (cases "get_state ops (client st) = UP")
    case False
    then show ?thesis
      by (simp add: loop_not_up)
  next
    case True
    obtain fl st' where it: "iteration ops st = (fl, st')"
      by (cases "iteration ops st")
    have tr: "trace st' = trace st @ iteration_events ops st"
      using trace_iteration [of ops st] it by simp
    show ?thesis
    proof (cases fl)
      case Continue
      obtain evs where "trace (loop ops st') = trace st' @ evs"
        using "1.IH" [OF True it [symmetric] Continue] by blast
      then have "trace (loop ops st) = trace st @ (iteration_events ops st @ evs)"
        using loop_continue [OF True] it Continue tr by simp
      then show ?thesis
        by (rule exI)
    next
      case Break
      then have "trace (loop ops st) = trace st @ iteration_events ops st"
        using loop_break [OF True] it tr by simp
      then show ?thesis
        by (rule exI)
    qed
  qed
qed

lemma finish_calls [simp]: "calls_of (events (finish ops st)) = calls_of (trace st)"
  by (simp add: finish_def)

lemma finish_stdout [simp]: "stdout_of (events (finish ops st)) = stdout_of (trace st)"
  by (simp add: finish_def)

lemma finish_status:
  "session (finish ops st) = Some (client st) \<and>
   (exit_code (finish ops st) = EXIT_SUCCESS \<longleftrightarrow> get_state ops (client st) = DOWN) \<and>
   (get_state ops (client st) \<noteq> DOWN \<longrightarrow>
      exit_code (finish ops st) = EXIT_FAILURE \<and>
      events (finish ops st) = trace st @ [Cerr (''!ERR! '' @ error_msg ops (client st) @ endl)])"
  by (simp add: finish_def EXIT_SUCCESS_def EXIT_FAILURE_def)

lemma iteration_io_only_up:
  assumes "send_contract ops" and "get_state ops (client st) = UP"
  shows "list_all io_only_up (iteration_events ops st)"
proof -
  have "0 \<le> fst (send ops (client st) s) \<Longrightarrow>
      get_state ops (snd (send ops (client st) s)) = UP" for s
    using assms unfolding send_contract_def
    by (metis not_less)
  then show ?thesis
    using assms(2) by (simp add: iteration_events_unfold Let_def reads_def)
qed

lemma loop_io_only_up:
  "send_contract ops \<Longrightarrow> list_all io_only_up (trace st) \<Longrightarrow>
   list_all io_only_up (trace (loop ops st))"
proof (induction ops st rule: loop.induct)
  case (1 ops st)
  note contract = "1.prems"(1) and inv = "1.prems"(2)
  show ?case
  proof (cases "get_state ops (client st) = UP")
    case False
    then show ?thesis
      using inv by (simp add: loop_not_up)
  next
    case True
    obtain fl st' where it: "iteration ops st = (fl, st')"
      by (cases "iteration ops st")
    have tr: "list_all io_only_up (trace st')"
      using trace_iteration [of ops st] iteration_io_only_up [OF contract True] inv it
      by simp
    show ?thesis
    proof (cases fl)
      case Continue
      then show ?thesis
        using "1.IH" [OF True it [symmetric] Continue contract tr] loop_continue [OF True] it by simp
    next
      case Break
      then show ?thesis
        using loop_break [OF True] it tr by simp
    qed
  qed
qed

lemma run_client_io_only_up:
  assumes "send_contract ops"
  shows "list_all io_only_up (events (run_client ops opts stdin signals))"
proof -
  have f: "list_all io_only_up (trace st) \<Longrightarrow> list_all io_only_up (events (finish ops st))" for st
    by (simp add: finish_def)
  show ?thesis
    unfolding run_client_def Let_def
    by (auto simp: split_beta intro!: f loop_io_only_up [OF assms])
qed

lemma run_client_constructs:
  "\<exists>evs. events (run_client ops opts stdin signals) =
     Construct (port opts) (hostname opts) (sock_of (protocol opts)) # evs"
proof -
  define k where "k = sock_of (protocol opts)"
  define c0 where "c0 = construct ops (port opts) (hostname opts) k"
  define tr1 where "tr1 = [Construct (port opts) (hostname opts) k, Call (get_state ops c0) Connect]"
  define st0 where "st0 = \<lparr>client = snd (connect ops c0), cin = stdin, eofbit = False,
     quit = False, sigs = signals, trace = tr1\<rparr>"
  obtain evs where "trace (loop ops st0) = trace st0 @ evs"
    using loop_extends_trace by blast
  then have l: "trace (loop ops st0) = Construct (port opts) (hostname opts) k #
      Call (get_state ops c0) Connect # evs"
    by (simp add: st0_def tr1_def)
  have f: "\<exists>evs'. events (finish ops (loop ops st0)) =
      Construct (port opts) (hostname opts) k # evs'"
    by (simp add: finish_def l)
  have r: "run_client ops opts stdin signals =
     (if get_state ops c0 = ERRORED then
        \<lparr>exit_code = EXIT_FAILURE,
         events = [Construct (port opts) (hostname opts) k,
                   Cerr (''!ERR! '' @ error_msg ops c0 @ endl)],
         session = Some c0\<rparr>
      else if \<not> fst (connect ops c0) \<or> get_state ops (snd (connect ops c0)) = ERRORED then
        \<lparr>exit_code = EXIT_FAILURE,
         events = tr1 @ [Cerr (''!ERR! '' @ error_msg ops (snd (connect ops c0)) @ endl)],
         session = Some (snd (connect ops c0))\<rparr>
      else finish ops (loop ops st0))"
    by (simp add: run_client_def Let_def split_beta k_def sock_of_def c0_def tr1_def st0_def)
  show ?thesis
    unfolding r k_def [symmetric] using f by (simp add: tr1_def)
qed

lemma run_client_status:
  assumes "fresh_connect_contract ops" and "session (run_client ops opts stdin signals) = Some c"
  shows "(get_state ops c \<noteq> DOWN \<longrightarrow>
            exit_code (run_client ops opts stdin signals) = EXIT_FAILURE \<and>
            (\<exists>pre. events (run_client ops opts stdin signals) =
               pre @ [Cerr (''!ERR! '' @ error_msg ops c @ endl)]))
       \<and> (exit_code (run_client ops opts stdin signals) = EXIT_SUCCESS \<longleftrightarrow>
            get_state ops c = DOWN)"
proof -
  define c0 where "c0 = construct ops (port opts) (hostname opts)
     (if protocol opts = ''tcp'' then SOCK_STREAM else SOCK_DGRAM)"
  show ?thesis
  proof (cases "get_state ops c0 = ERRORED")
    case True
    then show ?thesis
      using assms(2) by (auto simp: run_client_def Let_def c0_def EXIT_SUCCESS_def EXIT_FAILURE_def)
  next
    case False
    obtain ok c1 where k: "connect ops c0 = (ok, c1)"
      by (cases "connect ops c0")
    show ?thesis
    proof (cases "\<not> ok \<or> get_state ops c1 = ERRORED")
      case True
      have "get_state ops c1 = ERRORED"
        using True k False assms(1) unfolding fresh_connect_contract_def c0_def
        by (metis fst_conv snd_conv)
      then show ?thesis
        using assms(2) False k True
        by (auto simp: run_client_def Let_def c0_def [symmetric] EXIT_SUCCESS_def EXIT_FAILURE_def)
    next
      case ok: False
      define st where "st = loop ops \<lparr>client = c1, cin = stdin, eofbit = False, quit = False,
         sigs = signals, trace = [Construct (port opts) (hostname opts)
           (if protocol opts = ''tcp'' then SOCK_STREAM else SOCK_DGRAM),
           Call (get_state ops c0) Connect]\<rparr>"
      have r: "run_client ops opts stdin signals = finish ops st"
        using False k ok by (simp add: run_client_def Let_def c0_def [symmetric] st_def)
      show ?thesis
        using assms(2) finish_status [of ops st] unfolding r by auto
    qed
  qed
qed

lemma parse_options_fields:
  "parse_options rs opts = Some opts' \<Longrightarrow>
     hostname opts' = (case last_arg CHR ''h'' rs of None \<Rightarrow> hostname opts | Some a \<Rightarrow> a) \<and>
     protocol opts' = (case last_arg CHR ''m'' rs of None \<Rightarrow> protocol opts | Some a \<Rightarrow> a) \<and>
     port opts' = (case last_arg CHR ''p'' rs of None \<Rightarrow> port opts | Some a \<Rightarrow> atoi a)"
proof (induction rs opts rule: parse_options.induct)
  case (1 opts)
  then show ?case by simp
next
  case (2 c optarg rs opts)
  then show ?case
    by (auto split: if_splits option.splits)
next
  case (3 rs opts)
  then show ?case by simp
qed

lemma parse_options_known:
  "list_all known rs \<Longrightarrow> \<exists>opts'. parse_options rs opts = Some opts'"
  by (induction rs opts rule: parse_options.induct) (auto simp: takes_arg_def)

lemma main_usage_exit_cases:
  "main ops argv stdin signals = usage_exit msg \<Longrightarrow>
   exit_code (main ops argv stdin signals) = EXIT_FAILURE \<and>
   session (main ops argv stdin signals) = None \<and>
   events (main ops argv stdin signals) = [Cerr (msg @ usage)]"
  by (simp add: usage_exit_def)

lemma main_valid:
  assumes "parse_options (getopt_all (tl argv)) \<lparr>port = 0, hostname = [], protocol = []\<rparr>
             = Some opts"
    and "hostname opts \<noteq> []" and "port opts \<noteq> 0"
    and "protocol opts = ''tcp'' \<or> protocol opts = ''udp''"
  shows "main ops argv stdin signals = run_client ops opts stdin signals"
  using assms by (auto simp: main_def)

subsection \<open>\<^verbatim>\<open>atoi\<close> on decimal notation\<close>

lemma int_cast_id: "INT_MIN \<le> v \<Longrightarrow> v \<le> INT_MAX \<Longrightarrow> int_cast v = v"
  by (simp add: int_cast_def INT_MIN_def INT_MAX_def)

lemma saturate_long_id: "INT_MIN \<le> v \<Longrightarrow> v \<le> INT_MAX \<Longrightarrow> saturate_long v = v"
  by (simp add: saturate_long_def INT_MIN_def INT_MAX_def LONG_MIN_def LONG_MAX_def)

lemma zero_in_range: "saturate_long 0 = 0" "int_cast 0 = 0"
  by (simp_all add: saturate_long_def int_cast_def LONG_MIN_def LONG_MAX_def)

lemma of_char_digit_char:
  assumes "d < 10"
  shows "(of_char (digit_char d) :: nat) = 48 + d"
proof -
  have "d = 0 \<or> d = 1 \<or> d = 2 \<or> d = 3 \<or> d = 4 \<or>
      d = 5 \<or> d = 6 \<or> d = 7 \<or> d = 8 \<or> d = 9"
    using assms by arith
  then show ?thesis
    by (elim disjE) (simp_all add: digit_char_def)
qed

lemma digit_char_props:
  assumes "d < 10"
  shows "isdigit (digit_char d)" and "digit_val (digit_char d) = int d"
    and "\<not> isspace (digit_char d)" and "digit_char d \<noteq> CHR ''-''" and "digit_char d \<noteq> CHR ''+''"
proof -
  note o = of_char_digit_char [OF assms]
  show "isdigit (digit_char d)"
    using assms by (simp add: isdigit_def o)
  show "digit_val (digit_char d) = int d"
    by (simp add: digit_val_def o)
  have "(of_char (digit_char d) :: nat) \<noteq> of_char CHR '' ''"
    by (simp add: o)
  then have "digit_char d \<noteq> CHR '' ''"
    by metis
  then show "\<not> isspace (digit_char d)"
    by (simp add: isspace_def o)
  have "(of_char (digit_char d) :: nat) \<noteq> of_char CHR ''-''"
    by (simp add: o)
  then show "digit_char d \<noteq> CHR ''-''"
    by metis
  have "(of_char (digit_char d) :: nat) \<noteq> of_char CHR ''+''"
    by (simp add: o)
  then show "digit_char d \<noteq> CHR ''+''"
    by metis
qed

lemma isdigit_not_sign:
  assumes "isdigit c"
  shows "\<not> isspace c" and "c \<noteq> CHR ''-''" and "c \<noteq> CHR ''+''"
proof -
  have "(of_char c :: nat) \<noteq> of_char CHR '' ''" "(of_char c :: nat) \<noteq> of_char CHR ''-''"
    "(of_char c :: nat) \<noteq> of_char CHR ''+''"
    using assms by (simp_all add: isdigit_def)
  then have n: "c \<noteq> CHR '' ''" "c \<noteq> CHR ''-''" "c \<noteq> CHR ''+''"
    by metis+
  then show "c \<noteq> CHR ''-''" and "c \<noteq> CHR ''+''"
    by simp_all
  show "\<not> isspace c"
    using assms n(1) by (simp add: isspace_def isdigit_def)
qed

lemma digits_value_snoc:
  "list_all isdigit ds \<Longrightarrow> d < 10 \<Longrightarrow>
   digits_value acc (ds @ [digit_char d]) = 10 * digits_value acc ds + int d"
  by (induction ds arbitrary: acc) (simp_all add: digit_char_props)

lemma dec_nat_digits:
  "list_all isdigit (dec_nat n) \<and> digits_value 0 (dec_nat n) = int n \<and> dec_nat n \<noteq> []"
proof (induction n rule: dec_nat.induct)
  case (1 n)
  show ?case
  proof (cases "n < 10")
    case True
    then show ?thesis
      by (simp add: dec_nat.simps [of n] digit_char_props)
  next
    case False
    then have ih: "list_all isdigit (dec_nat (n div 10))"
      "digits_value 0 (dec_nat (n div 10)) = int (n div 10)"
      using "1.IH" by simp_all
    have m: "n mod 10 < 10"
      by simp
    have "digits_value 0 (dec_nat n) = 10 * int (n div 10) + int (n mod 10)"
      using False digits_value_snoc [OF ih(1) m, of 0] ih(2)
      by (simp add: dec_nat.simps [of n])
    also have "\<dots> = int n"
      by (metis mult_div_mod_eq of_nat_add of_nat_mult of_nat_numeral)
    finally show ?thesis
      using False ih(1) m by (simp add: dec_nat.simps [of n] digit_char_props)
  qed
qed

lemma strtol10_digits:
  assumes "list_all isdigit ds" and "ds \<noteq> []"
  shows "strtol10 ds = saturate_long (digits_value 0 ds)"
proof -
  obtain c cs where ds: "ds = c # cs"
    using assms(2) by (cases ds) auto
  then have c: "isdigit c"
    using assms(1) by simp
  show ?thesis
    using isdigit_not_sign [OF c] by (simp add: strtol10_def ds)
qed

lemma atoi_decimal:
  assumes "INT_MIN \<le> n" and "n \<le> INT_MAX"
  shows "atoi (decimal n) = n"
proof (cases "n < 0")
  case True
  have "\<not> isspace CHR ''-''"
    by (simp add: isspace_def)
  then have "strtol10 (decimal n) = saturate_long (- digits_value 0 (dec_nat (nat (- n))))"
    using True by (simp add: strtol10_def decimal_def)
  also have "\<dots> = saturate_long n"
    using True dec_nat_digits [of "nat (- n)"] by simp
  finally show ?thesis
    using assms by (simp add: atoi_def saturate_long_id int_cast_id)
next
  case False
  have "strtol10 (decimal n) = saturate_long (digits_value 0 (dec_nat (nat n)))"
    using False strtol10_digits [of "dec_nat (nat n)"] dec_nat_digits [of "nat n"]
    by (simp add: decimal_def)
  also have "\<dots> = saturate_long n"
    using False dec_nat_digits [of "nat n"] by simp
  finally show ?thesis
    using assms by (simp add: atoi_def saturate_long_id int_cast_id)
qed

lemma digits_value_no_digit:
  "(case cs of [] \<Rightarrow> False | d # ds \<Rightarrow> isdigit d) = False \<Longrightarrow> digits_value acc cs = acc"
  by (cases cs) simp_all

lemma atoi_no_number:
  assumes "\<not> has_number s"
  shows "atoi s = 0"
proof (cases "dropWhile isspace s")
  case Nil
  show ?thesis
    unfolding atoi_def strtol10_def Nil by (simp add: zero_in_range)
next
  case (Cons c cs)
  show ?thesis
  proof (cases "c = CHR ''-'' \<or> c = CHR ''+''")
    case True
    then have "(case cs of [] \<Rightarrow> False | d # ds \<Rightarrow> isdigit d) = False"
      using assms Cons by (simp add: has_number_def)
    then have "digits_value 0 cs = 0"
      by (rule digits_value_no_digit)
    then show ?thesis
      unfolding atoi_def strtol10_def Cons using True by (auto simp: zero_in_range)
  next
    case False
    then have "\<not> isdigit c"
      using assms Cons by (simp add: has_number_def)
    then have "digits_value 0 (c # cs) = 0"
      by simp
    then show ?thesis
      unfolding atoi_def strtol10_def Cons using False by (simp add: zero_in_range)
  qed
qed

subsection \<open>The scripted session keeps the contract\<close>

lemma session_send_contract: "send_contract (session_ops w)"
  by (auto simp: send_contract_def session_ops_def session_send_def transport_def
      split: list.splits transport_result.splits)

lemma session_disconnect_contract: "disconnect_contract (session_ops w)"
  by (simp add: disconnect_contract_def session_ops_def session_disconnect_def)

lemma session_fresh_connect_contract: "fresh_connect_contract (session_ops w)"
  by (auto simp: fresh_connect_contract_def session_ops_def session_connect_def
      session_create_def transport_def split: list.splits transport_result.splits option.splits)

section \<open>The claims\<close>

text \<open>
  Claim C1. Once cancellation is observed at the start of an iteration of the loop (the
  SIGINT flag is set, the stream has its end-of-file bit set, or standard input has
  nothing left to deliver), \<open>disconnect()\<close> is called and its status string is printed,
  the loop stops, and the process makes no further client call: from the state at the
  start of that iteration to the end of the process, the log grows by the read (if any),
  the call of \<open>disconnect()\<close> and the status string on standard output, and the only
  client call among the events is that \<open>disconnect()\<close>. Nothing is sent or received
  between the start of the iteration and the call of \<open>disconnect()\<close>.
\<close>

theorem cancellation_disconnects_and_stops:
  assumes "get_state ops (client st) = UP" and "cancelled st \<or> cin st = []"
  shows "trace (loop ops st) = trace st @ reads st @
           [Call UP Disconnect, Cout (fst (disconnect ops (client st)))]
       \<and> client (loop ops st) = snd (disconnect ops (client st))
       \<and> calls_of (events (finish ops (loop ops st))) = calls_of (trace st) @ [Disconnect]
       \<and> stdout_of (events (finish ops (loop ops st))) =
           stdout_of (trace st) @ fst (disconnect ops (client st))"
  using loop_stops_on_cancellation [OF assms] by simp

theorem cancellation_disconnects_and_stops_witness:
  "trace (loop (session_ops echo_server) (at_prompt echo_server [] [])) =
     [Construct 2023 ''localhost'' SOCK_STREAM, Call INIT Connect, Getline [],
      Call UP Disconnect, Cout ''BYE'']
   \<and> calls_of (events (finish (session_ops echo_server)
         (loop (session_ops echo_server) (at_prompt echo_server [] [])))) =
       [Connect, Disconnect]"
proof -
  let ?ops = "session_ops echo_server" and ?st = "at_prompt echo_server [] []"
  have u: "get_state ?ops (client ?st) = UP"
    by code_simp
  have x: "cancelled ?st \<or> cin ?st = []"
    by code_simp
  have r: "trace ?st @ reads ?st @ [Call UP Disconnect, Cout (fst (disconnect ?ops (client ?st)))] =
      [Construct 2023 ''localhost'' SOCK_STREAM, Call INIT Connect, Getline [],
       Call UP Disconnect, Cout ''BYE'']"
    by code_simp
  have c: "calls_of (trace ?st) @ [Disconnect] = [Connect, Disconnect]"
    by code_simp
  show ?thesis
    using cancellation_disconnects_and_stops [OF u x] r c by simp
qed

text \<open>
  Claim C2. After a session was created, the exit status follows the final state of the
  session: when that state is not \<open>DOWN\<close> the process writes \<open>!ERR!\<close>, the session's
  last error message and a newline to standard error as its last action and exits with
  the failure code, and it exits with the success code exactly when the final state is
  \<open>DOWN\<close>. The session is taken to keep its contract for \<open>connect()\<close>: a failed
  \<open>connect()\<close> leaves it \<open>ERRORED\<close>.
\<close>

theorem exit_status_reflects_final_state:
  assumes "fresh_connect_contract ops" and "session (main ops argv stdin signals) = Some c"
  shows "(get_state ops c \<noteq> DOWN \<longrightarrow>
            exit_code (main ops argv stdin signals) = EXIT_FAILURE \<and>
            (\<exists>pre. events (main ops argv stdin signals) =
               pre @ [Cerr (''!ERR! '' @ error_msg ops c @ endl)]))
       \<and> (exit_code (main ops argv stdin signals) = EXIT_SUCCESS \<longleftrightarrow>
            get_state ops c = DOWN)"
proof -
  have "\<exists>opts. main ops argv stdin signals = run_client ops opts stdin signals"
    using assms(2)
    by (auto simp: main_def usage_exit_def split: option.splits if_splits)
  then show ?thesis
    using run_client_status [OF assms(1)] assms(2) by metis
qed

theorem exit_status_reflects_final_state_witness:
  "exit_code (main (session_ops failing_server) example_argv (''hello'' @ endl) []) = EXIT_FAILURE
   \<and> (\<exists>pre. events (main (session_ops failing_server) example_argv (''hello'' @ endl) []) =
         pre @ [Cerr (''!ERR! send failed'' @ endl)])"
proof -
  let ?ops = "session_ops failing_server"
  let ?c = "\<lparr>sess_state = ERRORED, sess_error = ''send failed'', sess_kind = SOCK_STREAM,
             sess_net = [], sess_bye = ''BYE''\<rparr>"
  have s: "session (main ?ops example_argv (''hello'' @ endl) []) = Some ?c"
    by code_simp
  have n: "get_state ?ops ?c \<noteq> DOWN"
    by code_simp
  have m: "error_msg ?ops ?c = ''send failed''"
    by code_simp
  from exit_status_reflects_final_state [OF session_fresh_connect_contract s] n
  have "exit_code (main ?ops example_argv (''hello'' @ endl) []) = EXIT_FAILURE \<and>
      (\<exists>pre. events (main ?ops example_argv (''hello'' @ endl) []) =
         pre @ [Cerr (''!ERR! '' @ error_msg ?ops ?c @ endl)])"
    by blast
  then show ?thesis
    unfolding m by simp
qed

text \<open>
  Claim C3, as the code has it. When \<open>recv()\<close> returns an empty result the loop stops
  and \<open>disconnect()\<close> is not called; \<^verbatim>\<open>main\<close> leaves the session as \<open>recv()\<close> left it, so
  a session that \<open>recv()\<close> left \<open>UP\<close> is still \<open>UP\<close> at the end. The final check then
  treats it as it treats an \<open>ERRORED\<close> session: the state is not \<open>DOWN\<close>, so the process
  writes \<open>!ERR!\<close> with the last error message to standard error and exits with the
  failure code.
\<close>

theorem empty_response_stops_with_failure:
  assumes "get_state ops (client st) = UP" and "\<not> cancelled st"
    and "read_input st = (input, st1)" and "input \<noteq> []"
    and "send ops (client st) input = (n, c')" and "0 \<le> n"
    and "recv ops c' = ([], c'')" and "get_state ops c'' = UP"
  shows "trace (loop ops st) =
           trace st @ [Getline input, Call UP (Send input), Call (get_state ops c') Recv]
       \<and> client (loop ops st) = c''
       \<and> get_state ops (client (loop ops st)) = UP
       \<and> events (finish ops (loop ops st)) =
           trace (loop ops st) @ [Cerr (''!ERR! '' @ error_msg ops c'' @ endl)]
       \<and> exit_code (finish ops (loop ops st)) = EXIT_FAILURE"
proof -
  have i: "fst (read_input st) = input"
    using assms(3) by simp
  have s: "send ops (client st) (fst (read_input st)) = (n, c')"
    using assms(5) i by simp
  have it: "iteration ops st =
    (Break, (deliver_signals (snd (read_input st)))
       \<lparr>client := c'', trace := trace st @
          [Getline input, Call UP (Send input), Call (get_state ops c') Recv]\<rparr>)"
    using iteration_received [OF assms(2) _ s assms(6) assms(7)] assms(1,4) i
    by (simp add: reads_not_cancelled [OF assms(2)])
  have l: "loop ops st = snd (iteration ops st)"
    using loop_break [OF assms(1) it] by (simp add: it)
  show ?thesis
    using assms(8) by (simp add: l it finish_def)
qed

theorem empty_response_stops_with_failure_witness:
  "trace (loop (session_ops closing_server) (at_prompt closing_server (''hello'' @ endl) [])) =
     [Construct 2023 ''localhost'' SOCK_STREAM, Call INIT Connect, Getline ''hello'',
      Call UP (Send ''hello''), Call UP Recv]
   \<and> get_state (session_ops closing_server)
        (client (loop (session_ops closing_server)
           (at_prompt closing_server (''hello'' @ endl) []))) = UP
   \<and> exit_code (finish (session_ops closing_server)
        (loop (session_ops closing_server) (at_prompt closing_server (''hello'' @ endl) []))) =
       EXIT_FAILURE"
proof -
  let ?ops = "session_ops closing_server" and ?st = "at_prompt closing_server (''hello'' @ endl) []"
  let ?c' = "snd (send ?ops (client ?st) ''hello'')"
  have u: "get_state ?ops (client ?st) = UP"
    by code_simp
  have nc: "\<not> cancelled ?st"
    by code_simp
  have r: "read_input ?st = (''hello'', snd (read_input ?st))"
    by code_simp
  have ne: "''hello'' \<noteq> []"
    by simp
  have sd: "send ?ops (client ?st) ''hello'' = (5, ?c')"
    by code_simp
  have rc: "recv ?ops ?c' = ([], snd (recv ?ops ?c'))"
    by code_simp
  have up: "get_state ?ops (snd (recv ?ops ?c')) = UP"
    by code_simp
  have q: "get_state ?ops ?c' = UP"
    by code_simp
  have t: "trace ?st = [Construct 2023 ''localhost'' SOCK_STREAM, Call INIT Connect]"
    by code_simp
  have n: "(0::int) \<le> 5"
    by simp
  show ?thesis
    using empty_response_stops_with_failure [OF u nc r ne sd n rc up] q t up by simp
qed

text \<open>
  The claim as it was stated has the empty result handled as a normal termination, not
  as an error. With a server that closes the connection after the first request, the run
  ends with the session \<open>UP\<close>, an \<open>!ERR!\<close> line on standard error and the failure code.
\<close>

theorem empty_response_counterexample:
  "events (main (session_ops closing_server) example_argv (''hello'' @ endl) []) =
     [Construct 2023 ''localhost'' SOCK_STREAM, Call INIT Connect, Getline ''hello'',
      Call UP (Send ''hello''), Call UP Recv, Cerr (''!ERR! '' @ endl)]
   \<and> stderr_of (events (main (session_ops closing_server) example_argv (''hello'' @ endl) [])) =
       ''!ERR! '' @ endl
   \<and> map_option sess_state
        (session (main (session_ops closing_server) example_argv (''hello'' @ endl) [])) = Some UP
   \<and> exit_code (main (session_ops closing_server) example_argv (''hello'' @ endl) []) =
       EXIT_FAILURE
   \<and> exit_code (main (session_ops closing_server) example_argv (''hello'' @ endl) []) \<noteq>
       EXIT_SUCCESS"
  by code_simp

text \<open>
  Claim C4, as the code has it. When an iteration starts with the session \<open>UP\<close> and
  cancellation is observed at its check (the end-of-file bit is set or standard input has
  nothing left, or the SIGINT flag is set by then), termination goes through
  \<open>disconnect()\<close>: the status string is printed to standard output, the line read in
  that iteration is not sent, and, \<open>disconnect()\<close> leaving the session \<open>DOWN\<close>, the
  process exits with code 0 and writes nothing else.
\<close>

theorem cancellation_exits_cleanly:
  assumes "get_state ops (client st) = UP" and "cancelled st \<or> cin st = []"
    and "disconnect_contract ops"
  shows "events (finish ops (loop ops st)) = trace st @ reads st @
           [Call UP Disconnect, Cout (fst (disconnect ops (client st)))]
       \<and> exit_code (finish ops (loop ops st)) = EXIT_SUCCESS
       \<and> filter is_send (calls_of (events (finish ops (loop ops st)))) =
           filter is_send (calls_of (trace st))"
proof -
  note l = loop_stops_on_cancellation [OF assms(1,2)]
  have d: "get_state ops (client (loop ops st)) = DOWN"
    using assms(1,3) l by (simp add: disconnect_contract_def)
  show ?thesis
    using d l by (simp add: finish_def)
qed

theorem cancellation_exits_cleanly_witness:
  "events (finish (session_ops echo_server)
     (loop (session_ops echo_server) (at_prompt echo_server ''hel'' [True]))) =
     [Construct 2023 ''localhost'' SOCK_STREAM, Call INIT Connect, Getline ''hel'',
      Call UP Disconnect, Cout ''BYE'']
   \<and> exit_code (finish (session_ops echo_server)
     (loop (session_ops echo_server) (at_prompt echo_server ''hel'' [True]))) = EXIT_SUCCESS"
proof -
  let ?ops = "session_ops echo_server" and ?st = "at_prompt echo_server ''hel'' [True]"
  have u: "get_state ?ops (client ?st) = UP"
    by code_simp
  have x: "cancelled ?st \<or> cin ?st = []"
    by code_simp
  have r: "trace ?st @ reads ?st @ [Call UP Disconnect, Cout (fst (disconnect ?ops (client ?st)))] =
      [Construct 2023 ''localhost'' SOCK_STREAM, Call INIT Connect, Getline ''hel'',
       Call UP Disconnect, Cout ''BYE'']"
    by code_simp
  show ?thesis
    using cancellation_exits_cleanly [OF u x session_disconnect_contract] r by simp
qed

text \<open>
  The claim as it was stated also covers a last line that ends at end-of-file without a
  newline. The read that reaches the end of the input sets the end-of-file bit, but the
  bit is tested only at the start of the next iteration: the pending line is sent first.
\<close>

theorem eof_pending_line_counterexample:
  "cin (snd (read_input (at_prompt echo_server ''hello'' []))) = []
   \<and> eofbit (snd (read_input (at_prompt echo_server ''hello'' [])))
   \<and> events (main (session_ops echo_server) example_argv ''hello'' []) =
     [Construct 2023 ''localhost'' SOCK_STREAM, Call INIT Connect, Getline ''hello'',
      Call UP (Send ''hello''), Call UP Recv, Cout ''HELLO'', Call UP Disconnect, Cout ''BYE'']
   \<and> exit_code (main (session_ops echo_server) example_argv ''hello'' []) = EXIT_SUCCESS"
  by code_simp

text \<open>
  Claim C5, as the code has it. For the line that an iteration reads: an empty line
  triggers no \<open>send()\<close>, and the loop continues unless cancellation is pending; a
  non-empty line triggers exactly one \<open>send()\<close>, followed by at most one \<open>recv()\<close>,
  provided that cancellation is not pending at the check of that iteration; when it is
  pending the line is dropped and the only call is \<open>disconnect()\<close>.
\<close>

theorem one_exchange_per_line:
  assumes "read_input st = (input, st1)"
  shows "(input = [] \<longrightarrow> filter is_send (calls_of (iteration_events ops st)) = [])
       \<and> (input = [] \<and> \<not> cancelled st \<longrightarrow>
            fst (iteration ops st) = Continue \<and> calls_of (iteration_events ops st) = [])
       \<and> (input \<noteq> [] \<and> \<not> cancelled st \<longrightarrow>
            calls_of (iteration_events ops st) = [Send input] \<or>
            calls_of (iteration_events ops st) = [Send input, Recv])
       \<and> (cancelled st \<longrightarrow> calls_of (iteration_events ops st) = [Disconnect])"
proof -
  have i: "fst (read_input st) = input"
    using assms by simp
  show ?thesis
    by (simp add: iteration_events_unfold iteration_unfold Let_def i)
qed

theorem one_exchange_per_line_witness:
  "calls_of (iteration_events (session_ops echo_server)
      (at_prompt echo_server (''hello'' @ endl) [])) = [Send ''hello'']
   \<or> calls_of (iteration_events (session_ops echo_server)
      (at_prompt echo_server (''hello'' @ endl) [])) = [Send ''hello'', Recv]"
proof -
  let ?ops = "session_ops echo_server" and ?st = "at_prompt echo_server (''hello'' @ endl) []"
  have r: "read_input ?st = (''hello'', snd (read_input ?st))"
    by code_simp
  have nc: "\<not> cancelled ?st"
    by code_simp
  have ne: "''hello'' \<noteq> []"
    by simp
  show ?thesis
    using one_exchange_per_line [OF r, of ?ops] nc ne by blast
qed

text \<open>
  The claim as it was stated has every non-empty line sent. A SIGINT delivered before the
  check makes the loop drop the line \<open>hello\<close> that it has just read.
\<close>

theorem pending_cancellation_counterexample:
  "events (main (session_ops echo_server) example_argv (''hello'' @ endl) [True]) =
     [Construct 2023 ''localhost'' SOCK_STREAM, Call INIT Connect, Getline ''hello'',
      Call UP Disconnect, Cout ''BYE'']
   \<and> filter is_send
        (calls_of (events (main (session_ops echo_server) example_argv (''hello'' @ endl) [True])))
       = []"
  by code_simp

text \<open>
  Claim C6. When \<open>send()\<close> returns a negative result the loop stops at once: the log
  ends with that \<open>send()\<close>, so no \<open>recv()\<close> is attempted and \<open>disconnect()\<close> is not
  called; the session, which by its contract is \<open>ERRORED\<close> after the failed
  \<open>send()\<close>, is left as it is, and the final check reports its recorded message.
\<close>

theorem send_failure_stops_loop:
  assumes "get_state ops (client st) = UP" and "\<not> cancelled st"
    and "read_input st = (input, st1)" and "input \<noteq> []"
    and "send ops (client st) input = (n, c')" and "n < 0"
    and "send_contract ops"
  shows "trace (loop ops st) = trace st @ [Getline input, Call UP (Send input)]
       \<and> client (loop ops st) = c'
       \<and> get_state ops c' = ERRORED
       \<and> events (finish ops (loop ops st)) =
           trace st @ [Getline input, Call UP (Send input),
                       Cerr (''!ERR! '' @ error_msg ops c' @ endl)]
       \<and> exit_code (finish ops (loop ops st)) = EXIT_FAILURE"
proof -
  have i: "fst (read_input st) = input"
    using assms(3) by simp
  have f: "fst (send ops (client st) (fst (read_input st))) < 0"
    using assms(5,6) i by simp
  have it: "iteration ops st =
    (Break, (deliver_signals (snd (read_input st)))
       \<lparr>client := c', trace := trace st @ [Getline input, Call UP (Send input)]\<rparr>)"
    using iteration_send_failed [OF assms(2) _ f] assms(1,4,5) i
    by (simp add: reads_not_cancelled [OF assms(2)])
  have l: "loop ops st = snd (iteration ops st)"
    using loop_break [OF assms(1) it] by (simp add: it)
  have e: "get_state ops c' = ERRORED"
    using assms(1,5,6,7) unfolding send_contract_def
    by (metis fst_conv snd_conv)
  show ?thesis
    using e by (simp add: l it finish_def)
qed

theorem send_failure_stops_loop_witness:
  "events (finish (session_ops failing_server)
      (loop (session_ops failing_server) (at_prompt failing_server (''hello'' @ endl) []))) =
     [Construct 2023 ''localhost'' SOCK_STREAM, Call INIT Connect, Getline ''hello'',
      Call UP (Send ''hello''), Cerr (''!ERR! send failed'' @ endl)]
   \<and> exit_code (finish (session_ops failing_server)
      (loop (session_ops failing_server) (at_prompt failing_server (''hello'' @ endl) []))) =
     EXIT_FAILURE"
proof -
  let ?ops = "session_ops failing_server" and ?st = "at_prompt failing_server (''hello'' @ endl) []"
  let ?c' = "snd (send ?ops (client ?st) ''hello'')"
  have u: "get_state ?ops (client ?st) = UP"
    by code_simp
  have nc: "\<not> cancelled ?st"
    by code_simp
  have r: "read_input ?st = (''hello'', snd (read_input ?st))"
    by code_simp
  have ne: "''hello'' \<noteq> []"
    by simp
  have sd: "send ?ops (client ?st) ''hello'' = (- 1, ?c')"
    by code_simp
  have m: "error_msg ?ops ?c' = ''send failed''"
    by code_simp
  have t: "trace ?st = [Construct 2023 ''localhost'' SOCK_STREAM, Call INIT Connect]"
    by code_simp
  have n: "(- 1::int) < 0"
    by simp
  show ?thesis
    using send_failure_stops_loop [OF u nc r ne sd n session_send_contract] m t by simp
qed

text \<open>
  Claim C7. An argument vector in which the host, the port or the mode option is missing,
  or whose mode is neither \<open>tcp\<close> nor \<open>udp\<close>, makes the program write one message that
  ends with the usage line to standard error and exit with the failure code; no client
  object is created.
\<close>

theorem invalid_arguments_rejected:
  assumes "rs = getopt_all (tl argv)"
    and "last_arg CHR ''h'' rs = None \<or> last_arg CHR ''p'' rs = None \<or>
         last_arg CHR ''m'' rs = None \<or>
         (last_arg CHR ''m'' rs \<noteq> Some ''tcp'' \<and> last_arg CHR ''m'' rs \<noteq> Some ''udp'')"
  shows "exit_code (main ops argv stdin signals) = EXIT_FAILURE
       \<and> session (main ops argv stdin signals) = None
       \<and> (\<exists>msg. events (main ops argv stdin signals) = [Cerr (msg @ usage)])"
proof (cases "parse_options rs \<lparr>port = 0, hostname = [], protocol = []\<rparr>")
  case None
  then have "main ops argv stdin signals = usage_exit []"
    using assms(1) by (simp add: main_def)
  then show ?thesis
    using main_usage_exit_cases by blast
next
  case (Some opts)
  note f = parse_options_fields [OF Some]
  have "hostname opts = [] \<or> port opts = 0 \<or> protocol opts = [] \<or>
      (protocol opts \<noteq> ''tcp'' \<and> protocol opts \<noteq> ''udp'')"
    using assms(2) f by (auto split: option.splits)
  then have "\<exists>msg. main ops argv stdin signals = usage_exit msg"
    using assms(1) Some by (auto simp: main_def)
  then show ?thesis
    using main_usage_exit_cases by blast
qed

theorem invalid_arguments_rejected_witness:
  "exit_code (main (session_ops echo_server) [''./ipkcpc'', ''-h'', ''localhost'', ''-p'', ''2023'']
      [] []) = EXIT_FAILURE
   \<and> session (main (session_ops echo_server) [''./ipkcpc'', ''-h'', ''localhost'', ''-p'', ''2023'']
      [] []) = None
   \<and> (\<exists>msg. events (main (session_ops echo_server)
         [''./ipkcpc'', ''-h'', ''localhost'', ''-p'', ''2023''] [] []) = [Cerr (msg @ usage)])"
proof -
  let ?argv = "[''./ipkcpc'', ''-h'', ''localhost'', ''-p'', ''2023'']"
  have a: "last_arg CHR ''h'' (getopt_all (tl ?argv)) = None \<or>
      last_arg CHR ''p'' (getopt_all (tl ?argv)) = None \<or>
      last_arg CHR ''m'' (getopt_all (tl ?argv)) = None \<or>
      (last_arg CHR ''m'' (getopt_all (tl ?argv)) \<noteq> Some ''tcp'' \<and>
       last_arg CHR ''m'' (getopt_all (tl ?argv)) \<noteq> Some ''udp'')"
    by code_simp
  show ?thesis
    using invalid_arguments_rejected [OF refl a] .
qed

text \<open>
  Claim C8. In every run, every \<open>send()\<close> and every \<open>recv()\<close> is made while the session
  is \<open>UP\<close>. The guard of the loop covers \<open>send()\<close>; \<open>recv()\<close> follows a \<open>send()\<close> that
  returned a non-negative result, which by the session's contract leaves the state \<open>UP\<close>.
\<close>

theorem io_only_while_up:
  assumes "send_contract ops"
  shows "list_all io_only_up (events (main ops argv stdin signals))"
  using run_client_io_only_up [OF assms]
  by (auto simp: main_def usage_exit_def split: option.splits)

theorem io_only_while_up_witness:
  "list_all io_only_up (events (main (session_ops echo_server) example_argv (''hello'' @ endl) []))"
  using io_only_while_up [OF session_send_contract] .

text \<open>
  Claim C9, as the code has it. With a host and a valid mode given, the port argument
  \<open>a\<close> is judged by \<open>atoi a\<close> alone. When \<open>atoi a = 0\<close> the program reports
  \<open>Port not specified!\<close> with the usage line and fails; this is so for every string
  that does not start, after white space and an optional sign, with a digit. When
  \<open>atoi a\<close> is not 0 the arguments pass validation and the client is constructed with
  port \<open>atoi a\<close>; the decimal notation of every \<open>n\<close> in the range of \<open>int\<close> converts
  to \<open>n\<close>, so negative values and values above 65535 reach the constructor.
\<close>

theorem port_checked_against_zero_only:
  assumes "rs = getopt_all (tl argv)" and "list_all known rs"
    and "last_arg CHR ''h'' rs = Some host" and "host \<noteq> []"
    and "last_arg CHR ''p'' rs = Some a"
    and "last_arg CHR ''m'' rs = Some mode" and "mode = ''tcp'' \<or> mode = ''udp''"
  shows "(atoi a = 0 \<longrightarrow>
            main ops argv stdin signals = usage_exit (''!ERR! Port not specified!'' @ endl))
       \<and> (atoi a \<noteq> 0 \<longrightarrow>
            main ops argv stdin signals =
              run_client ops \<lparr>port = atoi a, hostname = host, protocol = mode\<rparr> stdin signals \<and>
            (\<exists>evs. events (main ops argv stdin signals) =
               Construct (atoi a) host (sock_of mode) # evs))
       \<and> (\<not> has_number a \<longrightarrow> atoi a = 0)
       \<and> (INT_MIN \<le> n \<and> n \<le> INT_MAX \<and> a = decimal n \<longrightarrow> atoi a = n)"
proof -
  obtain opts where p: "parse_options rs \<lparr>port = 0, hostname = [], protocol = []\<rparr> = Some opts"
    using parse_options_known [OF assms(2)] by blast
  have f: "hostname opts = host" "port opts = atoi a" "protocol opts = mode"
    using parse_options_fields [OF p] assms(3,5,6) by simp_all
  then have o: "opts = \<lparr>port = atoi a, hostname = host, protocol = mode\<rparr>"
    by simp
  have z: "atoi a = 0 \<longrightarrow>
      main ops argv stdin signals = usage_exit (''!ERR! Port not specified!'' @ endl)"
    using p f assms(1,4) by (simp add: main_def)
  have nz: "main ops argv stdin signals =
      run_client ops \<lparr>port = atoi a, hostname = host, protocol = mode\<rparr> stdin signals"
    if "atoi a \<noteq> 0"
    using main_valid [of argv opts ops stdin signals] p f assms(1,4,7) o that by simp
  have h: "\<exists>evs. events (run_client ops \<lparr>port = atoi a, hostname = host, protocol = mode\<rparr>
      stdin signals) = Construct (atoi a) host (sock_of mode) # evs"
    using run_client_constructs [of ops "\<lparr>port = atoi a, hostname = host, protocol = mode\<rparr>"]
    by simp
  have c2: "atoi a \<noteq> 0 \<longrightarrow>
      main ops argv stdin signals =
        run_client ops \<lparr>port = atoi a, hostname = host, protocol = mode\<rparr> stdin signals \<and>
      (\<exists>evs. events (main ops argv stdin signals) =
         Construct (atoi a) host (sock_of mode) # evs)"
    using nz h by simp
  have c3: "\<not> has_number a \<longrightarrow> atoi a = 0"
    using atoi_no_number by blast
  have c4: "INT_MIN \<le> n \<and> n \<le> INT_MAX \<and> a = decimal n \<longrightarrow> atoi a = n"
    using atoi_decimal by blast
  from z c2 c3 c4 show ?thesis
    by blast
qed

theorem port_checked_against_zero_only_witness:
  "atoi ''70000'' = 70000
   \<and> (\<exists>evs. events (main (session_ops echo_server)
         [''./ipkcpc'', ''-h'', ''localhost'', ''-p'', ''70000'', ''-m'', ''tcp''] [] []) =
         Construct 70000 ''localhost'' SOCK_STREAM # evs)"
proof -
  let ?argv = "[''./ipkcpc'', ''-h'', ''localhost'', ''-p'', ''70000'', ''-m'', ''tcp'']"
  have k: "list_all known (getopt_all (tl ?argv))"
    by code_simp
  have h: "last_arg CHR ''h'' (getopt_all (tl ?argv)) = Some ''localhost''"
    by code_simp
  have p: "last_arg CHR ''p'' (getopt_all (tl ?argv)) = Some ''70000''"
    by code_simp
  have m: "last_arg CHR ''m'' (getopt_all (tl ?argv)) = Some ''tcp''"
    by code_simp
  have d: "INT_MIN \<le> 70000 \<and> 70000 \<le> INT_MAX \<and> ''70000'' = decimal 70000"
    by (simp add: INT_MIN_def INT_MAX_def decimal_def dec_nat.simps digit_char_def)
  have ne: "''localhost'' \<noteq> []"
    by simp
  have md: "''tcp'' = ''tcp'' \<or> ''tcp'' = ''udp''"
    by simp
  note t = port_checked_against_zero_only [OF refl k h ne p m md,
      where ops = "session_ops echo_server" and n = 70000 and stdin = "[]" and signals = "[]"]
  have a: "atoi ''70000'' = 70000"
    using mp [OF t [THEN conjunct2, THEN conjunct2, THEN conjunct2] d] .
  then have nz: "atoi ''70000'' \<noteq> 0"
    by simp
  have s: "sock_of ''tcp'' = SOCK_STREAM"
    by (simp add: sock_of_def)
  have "\<exists>evs. events (main (session_ops echo_server) ?argv [] []) =
      Construct (atoi ''70000'') ''localhost'' (sock_of ''tcp'') # evs"
    using mp [OF t [THEN conjunct2, THEN conjunct1] nz] by (rule conjunct2)
  then have "\<exists>evs. events (main (session_ops echo_server) ?argv [] []) =
      Construct 70000 ''localhost'' SOCK_STREAM # evs"
    unfolding a s .
  with a show ?thesis
    by (rule conjI)
qed

text \<open>
  The claim as it was stated has every non-numeric port argument rejected. A string with
  digits in front, such as \<open>12abc\<close>, is not a number, and is accepted as port 12.
\<close>

theorem port_with_digit_prefix_counterexample:
  "\<not> list_all isdigit ''12abc''
   \<and> atoi ''12abc'' = 12
   \<and> events (main (session_ops echo_server)
        [''./ipkcpc'', ''-h'', ''localhost'', ''-p'', ''12abc'', ''-m'', ''tcp''] [] []) =
      [Construct 12 ''localhost'' SOCK_STREAM, Call INIT Connect, Getline [],
       Call UP Disconnect, Cout ''BYE'']
   \<and> stderr_of (events (main (session_ops echo_server)
        [''./ipkcpc'', ''-h'', ''localhost'', ''-p'', ''12abc'', ''-m'', ''tcp''] [] [])) = []
   \<and> exit_code (main (session_ops echo_server)
        [''./ipkcpc'', ''-h'', ''localhost'', ''-p'', ''12abc'', ''-m'', ''tcp''] [] []) =
      EXIT_SUCCESS"
  by code_simp

text \<open>
  Claim C10. When the arguments are valid and the client object is \<open>ERRORED\<close> right
  after its construction, the program writes \<open>!ERR!\<close> with the recorded message to
  standard error and exits with the failure code; \<open>connect()\<close> is not called.
\<close>

theorem errored_after_construction:
  assumes "parse_options (getopt_all (tl argv)) \<lparr>port = 0, hostname = [], protocol = []\<rparr>
             = Some opts"
    and "hostname opts \<noteq> []" and "port opts \<noteq> 0"
    and "protocol opts = ''tcp'' \<or> protocol opts = ''udp''"
    and "c = construct ops (port opts) (hostname opts) (sock_of (protocol opts))"
    and "get_state ops c = ERRORED"
  shows "main ops argv stdin signals =
           \<lparr>exit_code = EXIT_FAILURE,
            events = [Construct (port opts) (hostname opts) (sock_of (protocol opts)),
                      Cerr (''!ERR! '' @ error_msg ops c @ endl)],
            session = Some c\<rparr>"
  using assms(5,6) unfolding main_valid [OF assms(1-4)]
  by (simp add: run_client_def Let_def sock_of_def)

theorem errored_after_construction_witness:
  "main (session_ops no_socket) example_argv (''hello'' @ endl) [] =
     \<lparr>exit_code = EXIT_FAILURE,
      events = [Construct 2023 ''localhost'' SOCK_STREAM,
                Cerr (''!ERR! socket creation failed'' @ endl)],
      session = Some \<lparr>sess_state = ERRORED, sess_error = ''socket creation failed'',
                       sess_kind = SOCK_STREAM, sess_net = [], sess_bye = ''BYE''\<rparr>\<rparr>"
proof -
  let ?ops = "session_ops no_socket"
  let ?opts = "\<lparr>port = 2023, hostname = ''localhost'', protocol = ''tcp''\<rparr>"
  let ?c = "\<lparr>sess_state = ERRORED, sess_error = ''socket creation failed'',
             sess_kind = SOCK_STREAM, sess_net = [], sess_bye = ''BYE''\<rparr>"
  have p: "parse_options (getopt_all (tl example_argv)) \<lparr>port = 0, hostname = [], protocol = []\<rparr>
      = Some ?opts"
    by code_simp
  have c: "?c = construct ?ops (port ?opts) (hostname ?opts) (sock_of (protocol ?opts))"
    by code_simp
  have e: "get_state ?ops ?c = ERRORED"
    by code_simp
  have m: "error_msg ?ops ?c = ''socket creation failed''"
    by code_simp
  have h: "hostname ?opts \<noteq> []" and q: "port ?opts \<noteq> 0"
    and md: "protocol ?opts = ''tcp'' \<or> protocol ?opts = ''udp''"
    by simp_all
  have s: "sock_of ''tcp'' = SOCK_STREAM"
    by (simp add: sock_of_def)
  show ?thesis
    using errored_after_construction [OF p h q md c e,
        where stdin = "''hello'' @ endl" and signals = "[]"] m s
    by simp
qed

end
